theory Spec2Isabelle
  imports Complex_Main
begin

section \<open>Python values, exceptions and the session state\<close>

text \<open>
  The dashboard keeps all of its state in Streamlit's \<^verbatim>\<open>st.session_state\<close>, a
  dictionary from key names to Python objects. The objects that the modelled functions
  store there are \<^verbatim>\<open>None\<close>, booleans, integers, floats (modelled as rationals: the only
  floats computed are \<^verbatim>\<open>(i + 1) / 100\<close>), strings, lists, dictionaries with string keys
  (in insertion order) and task handles. A handle is either a \<^verbatim>\<open>threading.Thread\<close>, which
  has the method \<^verbatim>\<open>is_alive()\<close>, or a \<^verbatim>\<open>concurrent.futures.Future\<close>, which has
  \<^verbatim>\<open>done()\<close> but no \<^verbatim>\<open>is_alive()\<close>.
\<close>

datatype handle = Thread (alive: bool) | Future (finished: bool)

datatype pyval =
    PNone
  | PBool bool
  | PInt int
  | PFloat rat
  | PStr string
  | PList "pyval list"
  | PDict "(string \<times> pyval) list"
  | PHandle handle

datatype exn =
    KeyError string
  | IndexError string
  | ValueError string
  | AttributeError string
  | TypeError string

text \<open>\<^verbatim>\<open>str(e)\<close>: a \<^verbatim>\<open>KeyError\<close> prints the repr of the missing key, the others their message.\<close>

fun str_exn :: "exn \<Rightarrow> string" where
  "str_exn (KeyError k) = [CHR 0x27] @ k @ [CHR 0x27]"
| "str_exn (IndexError m) = m"
| "str_exn (ValueError m) = m"
| "str_exn (AttributeError m) = m"
| "str_exn (TypeError m) = m"

type_synonym session_state = "string \<rightharpoonup> pyval"

text \<open>Truth value of an object, as \<^verbatim>\<open>not x\<close> and \<^verbatim>\<open>if x\<close> test it.\<close>

fun truthy :: "pyval \<Rightarrow> bool" where
  "truthy PNone = False"
| "truthy (PBool b) = b"
| "truthy (PInt n) = (n \<noteq> 0)"
| "truthy (PFloat r) = (r \<noteq> 0)"
| "truthy (PStr s) = (s \<noteq> [])"
| "truthy (PList xs) = (xs \<noteq> [])"
| "truthy (PDict kvs) = (kvs \<noteq> [])"
| "truthy (PHandle h) = True"

text \<open>\<^verbatim>\<open>d[k]\<close> on a dictionary: a missing key raises \<^verbatim>\<open>KeyError\<close>.\<close>

definition getitem :: "(string \<rightharpoonup> 'v) \<Rightarrow> string \<Rightarrow> exn + 'v" where
  "getitem d k = (case d k of None \<Rightarrow> Inl (KeyError k) | Some v \<Rightarrow> Inr v)"

section \<open>Session state initialisation (session\_state.py and guared.py)\<close>

text \<open>
  \<^verbatim>\<open>initialize_session_state\<close> of session\_state.py is a sequence of sixteen calls
  \<^verbatim>\<open>st.session_state.setdefault(key, default)\<close>, in the order of \<open>session_defaults\<close>.
  No call can raise, so the \<^verbatim>\<open>except\<close> branch (log and \<^verbatim>\<open>display_error\<close>) is never taken.
\<close>

definition setdefault :: "string \<Rightarrow> pyval \<Rightarrow> session_state \<Rightarrow> session_state" where
  "setdefault k v st = (case st k of None \<Rightarrow> st(k \<mapsto> v) | Some _ \<Rightarrow> st)"

definition session_defaults :: "(string \<times> pyval) list" where
  "session_defaults =
    [(''targets'', PList []),
     (''test_results'', PDict []),
     (''running_test'', PBool False),
     (''progress'', PInt 0),
     (''vulnerabilities_found'', PInt 0),
     (''current_theme'', PStr ''dark''),
     (''current_page'', PStr ''Dashboard''),
     (''active_threads'', PList []),
     (''error_message'', PNone),
     (''bias_results'', PDict []),
     (''show_bias_results'', PBool False),
     (''carbon_tracking_active'', PBool False),
     (''carbon_measurements'', PList []),
     (''VALIDATION_STRICTNESS'', PInt 2),
     (''reports'', PList []),
     (''insights'', PList [])]"

definition initialize_session_state :: "session_state \<Rightarrow> session_state" where
  "initialize_session_state st = fold (\<lambda>(k, v). setdefault k v) session_defaults st"

text \<open>
  guared.py writes the same sixteen defaults, in the same order, as
  \<^verbatim>\<open>if key not in st.session_state: st.session_state.key = default\<close>.
\<close>

definition assign_if_absent :: "string \<Rightarrow> pyval \<Rightarrow> session_state \<Rightarrow> session_state" where
  "assign_if_absent k v st = (if k \<notin> dom st then st(k \<mapsto> v) else st)"

definition guared_initialize_session_state :: "session_state \<Rightarrow> session_state" where
  "guared_initialize_session_state st = fold (\<lambda>(k, v). assign_if_absent k v) session_defaults st"

section \<open>Pruning the tracked task handles\<close>

text \<open>
  \<^verbatim>\<open>thr.is_alive()\<close>: defined on a thread; any other object, a future included, has no
  such attribute and the call raises \<^verbatim>\<open>AttributeError\<close>.
\<close>

fun is_alive :: "pyval \<Rightarrow> exn + bool" where
  "is_alive (PHandle (Thread a)) = Inr a"
| "is_alive (PHandle (Future d)) =
     Inl (AttributeError ''Future object has no attribute is_alive'')"
| "is_alive v = Inl (AttributeError ''object has no attribute is_alive'')"

text \<open>
  The comprehension \<^verbatim>\<open>[thr for thr in active if thr.is_alive()]\<close>: elements are tested
  from left to right and the first exception aborts the whole comprehension.
\<close>

fun alive_only :: "pyval list \<Rightarrow> exn + pyval list" where
  "alive_only [] = Inr []"
| "alive_only (thr # rest) =
     (case is_alive thr of
        Inl e \<Rightarrow> Inl e
      | Inr a \<Rightarrow>
          (case alive_only rest of
             Inl e \<Rightarrow> Inl e
           | Inr kept \<Rightarrow> Inr (if a then thr # kept else kept)))"

text \<open>Iterating an object in a comprehension: lists, strings and dictionaries are iterable.\<close>

fun iterate :: "pyval \<Rightarrow> exn + pyval list" where
  "iterate (PList xs) = Inr xs"
| "iterate (PStr s) = Inr (map (\<lambda>c. PStr [c]) s)"
| "iterate (PDict kvs) = Inr (map (\<lambda>kv. PStr (fst kv)) kvs)"
| "iterate v = Inl (TypeError ''object is not iterable'')"

text \<open>
  session\_state.py:
  \<^verbatim>\<open>
  try:
      active = st.session_state.get("active_threads", [])
      st.session_state["active_threads"] = [thr for thr in active if thr.is_alive()]
      ...log...
  except Exception as e:
      logger.error(...)
  \<close>
  An exception inside the comprehension is caught and logged; the assignment has not
  happened then, so the session state is as before.
\<close>

definition cleanup_threads :: "session_state \<Rightarrow> session_state" where
  "cleanup_threads st =
     (let active = (case st ''active_threads'' of None \<Rightarrow> PList [] | Some v \<Rightarrow> v) in
      case iterate active of
        Inl e \<Rightarrow> st
      | Inr thrs \<Rightarrow>
          (case alive_only thrs of
             Inl e \<Rightarrow> st
           | Inr kept \<Rightarrow> st(''active_threads'' \<mapsto> PList kept)))"

text \<open>
  guared.py does the same under \<^verbatim>\<open>if 'active_threads' in st.session_state\<close>, and does
  nothing when the key is absent.
\<close>

definition guared_cleanup_threads :: "session_state \<Rightarrow> session_state" where
  "guared_cleanup_threads st =
     (case st ''active_threads'' of
        None \<Rightarrow> st
      | Some active \<Rightarrow>
          (case iterate active of
             Inl e \<Rightarrow> st
           | Inr thrs \<Rightarrow>
               (case alive_only thrs of
                  Inl e \<Rightarrow> st
                | Inr kept \<Rightarrow> st(''active_threads'' \<mapsto> PList kept))))"

text \<open>
  The handles that reach the list are futures: \<^verbatim>\<open>start_security_test\<close>
  (security\_tests.py) runs
  \<^verbatim>\<open>st.session_state.setdefault("active_threads", []).append(future)\<close> with the future
  returned by \<^verbatim>\<open>executor.submit\<close>. Only this tracking step is modelled here; the
  task itself is \<open>run_mock_test\<close> below.
\<close>

definition track_future :: "pyval \<Rightarrow> session_state \<Rightarrow> exn + session_state" where
  "track_future future st =
     (let st' = setdefault ''active_threads'' (PList []) st in
      case st' ''active_threads'' of
        Some (PList hs) \<Rightarrow> Inr (st'(''active_threads'' \<mapsto> PList (hs @ [future])))
      | _ \<Rightarrow> Inl (AttributeError ''object has no attribute append''))"

text \<open>
  \<^verbatim>\<open>submit_test\<close> (guared.py) runs \<^verbatim>\<open>st.session_state.active_threads.append(future)\<close>
  inside \<^verbatim>\<open>try\<close>, with no \<^verbatim>\<open>setdefault\<close>: when the key is absent, or does not hold a
  list, the access raises, the handler reports the error and returns \<^verbatim>\<open>None\<close>, and
  the session state is as before (the task has been submitted all the same).
\<close>

definition guared_track_future :: "pyval \<Rightarrow> session_state \<Rightarrow> session_state" where
  "guared_track_future future st =
     (case st ''active_threads'' of
        Some (PList hs) \<Rightarrow> st(''active_threads'' \<mapsto> PList (hs @ [future]))
      | _ \<Rightarrow> st)"

text \<open>Lists of thread handles, for stating what the pruning does on threads.\<close>

definition thread_handles :: "bool list \<Rightarrow> pyval list" where
  "thread_handles as = map (\<lambda>a. PHandle (Thread a)) as"

section \<open>The simulated assessment task\<close>

subsection \<open>What the environment supplies\<close>

text \<open>
  \<open>run_mock_test\<close> runs in a pool thread. Everything it does not compute itself comes
  from the environment, one \<open>tick\<close> per loop iteration:
  \<^item> what another thread has assigned to \<^verbatim>\<open>running_test\<close> since the previous
    iteration's sleep and before this iteration's check (\<open>write_before\<close>), and what
    another thread assigns during this iteration's \<^verbatim>\<open>time.sleep\<close> (\<open>write_asleep\<close>):
    \<open>None\<close> when there is no such assignment, otherwise the value assigned last.
    Another run of the task on the same session assigns \<^verbatim>\<open>True\<close> when it starts and
    \<^verbatim>\<open>False\<close> in its \<^verbatim>\<open>finally\<close> block; a user interface may assign \<^verbatim>\<open>False\<close>
    to cancel;
  \<^item> the outcome of \<^verbatim>\<open>random.random() < 0.2\<close> (\<open>hit\<close>);
  \<^item> the number drawn by \<^verbatim>\<open>random.choice\<close> (\<open>pick\<close>), reduced below the length of
    the sequence as the library does;
  \<^item> the text of \<^verbatim>\<open>datetime.now().isoformat()\<close> (\<open>stamp\<close>).
  The wall-clock duration of \<^verbatim>\<open>time.sleep\<close> is not modelled.
\<close>

record tick =
  write_before :: "bool option"
  write_asleep :: "bool option"
  hit :: bool
  pick :: nat
  stamp :: string

record environment =
  start_stamp :: string
  ticks :: "nat \<Rightarrow> tick"
  end_stamp :: string
  traceback_text :: string

definition other_thread_writes :: "bool option \<Rightarrow> session_state \<Rightarrow> session_state" where
  "other_thread_writes w st =
     (case w of None \<Rightarrow> st | Some b \<Rightarrow> st(''running_test'' \<mapsto> PBool b))"

subsection \<open>Library calls\<close>

text \<open>\<^verbatim>\<open>random.choice(seq)\<close> raises \<^verbatim>\<open>IndexError\<close> on an empty sequence.\<close>

definition random_choice :: "'a list \<Rightarrow> nat \<Rightarrow> exn + 'a" where
  "random_choice seq r =
     (if seq = [] then Inl (IndexError ''Cannot choose from an empty sequence'')
      else Inr (seq ! (r mod length seq)))"

text \<open>\<^verbatim>\<open>st.session_state[k] += 1\<close>.\<close>

definition increment :: "string \<Rightarrow> session_state \<Rightarrow> exn + session_state" where
  "increment k st =
     (case st k of
        None \<Rightarrow> Inl (KeyError k)
      | Some (PInt n) \<Rightarrow> Inr (st(k \<mapsto> PInt (n + 1)))
      | Some (PBool b) \<Rightarrow> Inr (st(k \<mapsto> PInt ((if b then 1 else 0) + 1)))
      | Some (PFloat r) \<Rightarrow> Inr (st(k \<mapsto> PFloat (r + 1)))
      | Some _ \<Rightarrow> Inl (TypeError ''unsupported operand type(s) for +=''))"

text \<open>Decimal text of a number, as an f-string prints \<^verbatim>\<open>len(...) + 1\<close>.\<close>

fun str_nat :: "nat \<Rightarrow> string" where
  "str_nat n =
     (if n < 10 then [''0123456789'' ! n]
      else str_nat (n div 10) @ [''0123456789'' ! (n mod 10)])"

declare str_nat.simps [simp del]

subsection \<open>The result under construction\<close>

text \<open>
  \<^verbatim>\<open>results["summary"]\<close> and the entries of \<^verbatim>\<open>results["vulnerabilities"]\<close> are
  dictionary literals with fixed keys; while the loop runs they are kept as records, and
  \<open>summary_dict\<close> and \<open>vulnerability_dict\<close> give the dictionaries they stand for, keys in
  the order of the literals.
\<close>

record summary =
  total_tests :: int
  vulnerabilities_found :: int
  risk_score :: int

record vulnerability =
  vuln_id :: string
  test_vector :: string
  test_name :: string
  severity :: string
  details :: string
  timestamp :: string

definition summary_dict :: "summary \<Rightarrow> pyval" where
  "summary_dict sm =
     PDict [(''total_tests'', PInt (total_tests sm)),
            (''vulnerabilities_found'', PInt (vulnerabilities_found sm)),
            (''risk_score'', PInt (risk_score sm))]"

definition vulnerability_dict :: "vulnerability \<Rightarrow> pyval" where
  "vulnerability_dict v =
     PDict [(''id'', PStr (vuln_id v)),
            (''test_vector'', PStr (test_vector v)),
            (''test_name'', PStr (test_name v)),
            (''severity'', PStr (severity v)),
            (''details'', PStr (details v)),
            (''timestamp'', PStr (timestamp v))]"

text \<open>
  The state the loop works on: the session state, the two parts of \<^verbatim>\<open>results\<close> that the
  loop changes, and (for stating the claims about progress) the list of all values
  assigned to \<^verbatim>\<open>progress\<close> so far, oldest first.
\<close>

record task_state =
  sess :: session_state
  results_summary :: summary
  results_vulnerabilities :: "vulnerability list"
  progress_writes :: "rat list"

text \<open>How the loop was left: ran out of iterations, \<^verbatim>\<open>break\<close>, or an exception.\<close>

datatype ending = Completed | Cancelled | Failed exn

subsection \<open>The loop\<close>

text \<open>
  \<^verbatim>\<open>{"low": 1, "medium": 2, "high": 3, "critical": 5}.get(vector["severity"], 1)\<close>
\<close>

definition severity_weight :: "string \<Rightarrow> int" where
  "severity_weight sev =
     (case map_of [(''low'', 1), (''medium'', 2), (''high'', 3), (''critical'', 5)] sev of
        Some w \<Rightarrow> w
      | None \<Rightarrow> 1)"

text \<open>The \<^verbatim>\<open>details\<close> text is the one place where the two copies of the loop differ.\<close>

definition details_security_tests :: "string \<Rightarrow> string \<Rightarrow> string" where
  "details_security_tests target_name vector_name =
     ''Mock vulnerability from '' @ target_name @ '' using '' @ vector_name @ ''.''"

definition details_guared :: "string \<Rightarrow> string \<Rightarrow> string" where
  "details_guared target_name vector_name =
     ''Mock vulnerability found in '' @ target_name @ '' using '' @ vector_name @
     '' test vector.''"

text \<open>
  The body of \<^verbatim>\<open>if random.random() < 0.2:\<close>. The lookups happen in the order of the
  source: \<^verbatim>\<open>vector["severity"]\<close> for the weight, then \<^verbatim>\<open>vector["id"]\<close>,
  \<^verbatim>\<open>vector["name"]\<close> and \<^verbatim>\<open>target['name']\<close> for the literal. An exception leaves
  the session state as it was before the body.
\<close>

definition synthesize ::
  "(string \<Rightarrow> string \<Rightarrow> string) \<Rightarrow> (string \<rightharpoonup> string) \<Rightarrow> (string \<rightharpoonup> string) list \<Rightarrow>
     tick \<Rightarrow> task_state \<Rightarrow> exn + task_state" where
  "synthesize details_text target test_vectors tk s =
     (case random_choice test_vectors (pick tk) of
        Inl e \<Rightarrow> Inl e
      | Inr vector \<Rightarrow>
     (case getitem vector ''severity'' of
        Inl e \<Rightarrow> Inl e
      | Inr sev \<Rightarrow>
     (case getitem vector ''id'' of
        Inl e \<Rightarrow> Inl e
      | Inr vector_id \<Rightarrow>
     (case getitem vector ''name'' of
        Inl e \<Rightarrow> Inl e
      | Inr vector_name \<Rightarrow>
     (case getitem target ''name'' of
        Inl e \<Rightarrow> Inl e
      | Inr target_name \<Rightarrow>
     (let weight = severity_weight sev;
          vulnerability =
            \<lparr>vuln_id = ''VULN-'' @ str_nat (length (results_vulnerabilities s) + 1),
             test_vector = vector_id,
             test_name = vector_name,
             severity = sev,
             details = details_text target_name vector_name,
             timestamp = stamp tk\<rparr>
      in case increment ''vulnerabilities_found'' (sess s) of
           Inl e \<Rightarrow> Inl e
         | Inr st' \<Rightarrow>
             Inr (s\<lparr>sess := st',
                    results_vulnerabilities := results_vulnerabilities s @ [vulnerability],
                    results_summary := (results_summary s)
                      \<lparr>vulnerabilities_found := vulnerabilities_found (results_summary s) + 1,
                       risk_score := risk_score (results_summary s) + weight\<rparr>\<rparr>)))))))"

text \<open>
  \<^verbatim>\<open>
  for i in range(total_steps):
      if not st.session_state["running_test"]:
          break
      time.sleep(step_sleep)
      st.session_state["progress"] = (i + 1) / total_steps
      if random.random() < 0.2:
          ...
  \<close>
  \<open>mock_loop \<dots> n i s\<close> runs the iterations \<open>i, i + 1, \<dots>, i + n - 1\<close> from the state \<open>s\<close>;
  the whole loop is \<open>mock_loop \<dots> 100 0\<close>. \<^verbatim>\<open>time.sleep\<close> raises \<^verbatim>\<open>ValueError\<close> on a
  negative length.
\<close>

fun mock_loop ::
  "(string \<Rightarrow> string \<Rightarrow> string) \<Rightarrow> (string \<rightharpoonup> string) \<Rightarrow> (string \<rightharpoonup> string) list \<Rightarrow>
     rat \<Rightarrow> (nat \<Rightarrow> tick) \<Rightarrow> nat \<Rightarrow> nat \<Rightarrow> task_state \<Rightarrow> ending \<times> task_state" where
  "mock_loop details_text target test_vectors step_sleep tks 0 i s = (Completed, s)"
| "mock_loop details_text target test_vectors step_sleep tks (Suc n) i s =
     (let tk = tks i;
          s1 = s\<lparr>sess := other_thread_writes (write_before tk) (sess s)\<rparr>
      in case getitem (sess s1) ''running_test'' of
           Inl e \<Rightarrow> (Failed e, s1)
         | Inr flag \<Rightarrow>
             if \<not> truthy flag then (Cancelled, s1)
             else if step_sleep < 0
               then (Failed (ValueError ''sleep length must be non-negative''), s1)
             else
               (let s2 = s1\<lparr>sess := other_thread_writes (write_asleep tk) (sess s1)\<rparr>;
                    p = (of_nat i + 1) / 100;
                    s3 = s2\<lparr>sess := (sess s2)(''progress'' \<mapsto> PFloat p),
                            progress_writes := progress_writes s2 @ [p]\<rparr>
                in if hit tk
                   then (case synthesize details_text target test_vectors tk s3 of
                           Inl e \<Rightarrow> (Failed e, s3)
                         | Inr s4 \<Rightarrow>
                             mock_loop details_text target test_vectors step_sleep tks
                               n (Suc i) s4)
                   else mock_loop details_text target test_vectors step_sleep tks
                          n (Suc i) s3))"

subsection \<open>run\_mock\_test\<close>

text \<open>
  What a call leaves behind: the session state, the returned object, the values that were
  assigned to \<^verbatim>\<open>progress\<close> (oldest first) and how the loop was left.
\<close>

record run =
  session :: session_state
  returned :: pyval
  written :: "rat list"
  outcome :: ending

text \<open>
  The first three statements of both versions:
  \<^verbatim>\<open>progress = 0\<close>, \<^verbatim>\<open>vulnerabilities_found = 0\<close>, \<^verbatim>\<open>running_test = True\<close>.
\<close>

definition task_start :: "session_state \<Rightarrow> task_state" where
  "task_start st =
     \<lparr>sess = st(''progress'' \<mapsto> PInt 0, ''vulnerabilities_found'' \<mapsto> PInt 0,
               ''running_test'' \<mapsto> PBool True),
      results_summary = \<lparr>total_tests = 0, vulnerabilities_found = 0, risk_score = 0\<rparr>,
      results_vulnerabilities = [],
      progress_writes = [0]\<rparr>"

text \<open>
  security\_tests.py. The \<^verbatim>\<open>try\<close> block with its \<^verbatim>\<open>except Exception\<close> handler:
  \<^verbatim>\<open>target['name']\<close> is read for the log line and for the \<^verbatim>\<open>results\<close> literal before the
  loop; after the loop \<^verbatim>\<open>total_tests\<close> is set and \<^verbatim>\<open>results\<close> returned. The handler
  stores the message and returns \<^verbatim>\<open>{"error": True, "error_message": str(e)}\<close>.
\<close>

definition security_tests_except :: "exn \<Rightarrow> task_state \<Rightarrow> run" where
  "security_tests_except e s =
     \<lparr>session = (sess s)(''error_message'' \<mapsto> PStr (''Test execution failed: '' @ str_exn e)),
      returned = PDict [(''error'', PBool True), (''error_message'', PStr (str_exn e))],
      written = progress_writes s,
      outcome = Failed e\<rparr>"

definition security_tests_try ::
  "(string \<rightharpoonup> string) \<Rightarrow> (string \<rightharpoonup> string) list \<Rightarrow> rat \<Rightarrow> environment \<Rightarrow>
     session_state \<Rightarrow> run" where
  "security_tests_try target test_vectors duration ev st =
     (let s0 = task_start st in
      case getitem target ''name'' of
        Inl e \<Rightarrow> security_tests_except e s0
      | Inr target_name \<Rightarrow>
          (case mock_loop details_security_tests target test_vectors (duration / 100)
                  (ticks ev) 100 0 s0 of
             (Failed e, s) \<Rightarrow> security_tests_except e s
           | (left, s) \<Rightarrow>
               \<lparr>session = sess s,
                returned =
                  PDict [(''summary'', summary_dict ((results_summary s)
                            \<lparr>total_tests := int (length test_vectors) * 10\<rparr>)),
                         (''vulnerabilities'',
                            PList (map vulnerability_dict (results_vulnerabilities s))),
                         (''timestamp'', PStr (start_stamp ev)),
                         (''target'', PStr target_name)],
                written = progress_writes s,
                outcome = left\<rparr>))"

text \<open>The \<^verbatim>\<open>finally\<close> block of both versions: \<^verbatim>\<open>running_test = False\<close>.\<close>

definition finally_reset :: "run \<Rightarrow> run" where
  "finally_reset r = r\<lparr>session := (session r)(''running_test'' \<mapsto> PBool False)\<rparr>"

definition run_mock_test ::
  "(string \<rightharpoonup> string) \<Rightarrow> (string \<rightharpoonup> string) list \<Rightarrow> rat \<Rightarrow> environment \<Rightarrow>
     session_state \<Rightarrow> run" where
  "run_mock_test target test_vectors duration ev st =
     finally_reset (security_tests_try target test_vectors duration ev st)"

text \<open>
  guared.py. \<^verbatim>\<open>results\<close> starts with the keys \<^verbatim>\<open>summary\<close>, \<^verbatim>\<open>vulnerabilities\<close> and
  \<^verbatim>\<open>test_details\<close>; after the loop \<^verbatim>\<open>total_tests\<close>, \<^verbatim>\<open>timestamp\<close> and \<^verbatim>\<open>target\<close> are
  set, and the result is also stored under \<^verbatim>\<open>test_results\<close>. The handler returns
  \<^verbatim>\<open>{"error", "error_message", "traceback", "timestamp"}\<close>.
\<close>

definition guared_except :: "environment \<Rightarrow> exn \<Rightarrow> task_state \<Rightarrow> run" where
  "guared_except ev e s =
     \<lparr>session = (sess s)(''error_message'' \<mapsto> PStr (''Test execution failed: '' @ str_exn e)),
      returned = PDict [(''error'', PBool True),
                        (''error_message'', PStr (str_exn e)),
                        (''traceback'', PStr (traceback_text ev)),
                        (''timestamp'', PStr (end_stamp ev))],
      written = progress_writes s,
      outcome = Failed e\<rparr>"

definition guared_try ::
  "(string \<rightharpoonup> string) \<Rightarrow> (string \<rightharpoonup> string) list \<Rightarrow> rat \<Rightarrow> environment \<Rightarrow>
     session_state \<Rightarrow> run" where
  "guared_try target test_vectors duration ev st =
     (let s0 = task_start st in
      case getitem target ''name'' of
        Inl e \<Rightarrow> guared_except ev e s0
      | Inr logged_name \<Rightarrow>
          (case mock_loop details_guared target test_vectors (duration / 100)
                  (ticks ev) 100 0 s0 of
             (Failed e, s) \<Rightarrow> guared_except ev e s
           | (left, s) \<Rightarrow>
               (case getitem target ''name'' of
                  Inl e \<Rightarrow> guared_except ev e s
                | Inr target_name \<Rightarrow>
                    (let results =
                       PDict [(''summary'', summary_dict ((results_summary s)
                                 \<lparr>total_tests := int (length test_vectors) * 10\<rparr>)),
                              (''vulnerabilities'',
                                 PList (map vulnerability_dict (results_vulnerabilities s))),
                              (''test_details'', PDict []),
                              (''timestamp'', PStr (end_stamp ev)),
                              (''target'', PStr target_name)]
                     in \<lparr>session = (sess s)(''test_results'' \<mapsto> results),
                         returned = results,
                         written = progress_writes s,
                         outcome = left\<rparr>))))"

definition guared_run_mock_test ::
  "(string \<rightharpoonup> string) \<Rightarrow> (string \<rightharpoonup> string) list \<Rightarrow> rat \<Rightarrow> environment \<Rightarrow>
     session_state \<Rightarrow> run" where
  "guared_run_mock_test target test_vectors duration ev st =
     finally_reset (guared_try target test_vectors duration ev st)"

text \<open>Reading a returned dictionary: \<^verbatim>\<open>d[k]\<close> and \<^verbatim>\<open>d[k][k']\<close>, \<open>None\<close> when absent.\<close>

definition field :: "pyval \<Rightarrow> string \<Rightarrow> pyval option" where
  "field d k = (case d of PDict kvs \<Rightarrow> map_of kvs k | _ \<Rightarrow> None)"

definition field2 :: "pyval \<Rightarrow> string \<Rightarrow> string \<Rightarrow> pyval option" where
  "field2 d k k' = (case field d k of Some inner \<Rightarrow> field inner k' | None \<Rightarrow> None)"

definition keys :: "pyval \<Rightarrow> string list" where
  "keys d = (case d of PDict kvs \<Rightarrow> map fst kvs | _ \<Rightarrow> [])"

definition keys2 :: "pyval \<Rightarrow> string \<Rightarrow> string list" where
  "keys2 d k = (case field d k of Some inner \<Rightarrow> keys inner | None \<Rightarrow> [])"

text \<open>\<^verbatim>\<open>get_mock_test_vectors()\<close> of security\_tests.py, and inputs for examples.\<close>

definition get_mock_test_vectors :: "(string \<rightharpoonup> string) list" where
  "get_mock_test_vectors =
     [[''id'' \<mapsto> ''sql_injection'', ''name'' \<mapsto> ''SQL Injection'',
       ''category'' \<mapsto> ''owasp'', ''severity'' \<mapsto> ''high''],
      [''id'' \<mapsto> ''xss'', ''name'' \<mapsto> ''Cross-Site Scripting'',
       ''category'' \<mapsto> ''owasp'', ''severity'' \<mapsto> ''medium''],
      [''id'' \<mapsto> ''prompt_injection'', ''name'' \<mapsto> ''Prompt Injection'',
       ''category'' \<mapsto> ''owasp'', ''severity'' \<mapsto> ''critical'']]"

definition demo_target :: "string \<rightharpoonup> string" where
  "demo_target = [''name'' \<mapsto> ''demo-model'']"

text \<open>
  Environments in which the first three iterations each find a vulnerability (vectors
  0, 1 and 2 of the catalogue); \<open>before\<close> and \<open>asleep\<close> give the assignments of other
  threads to the flag, per iteration.
\<close>

definition env_with :: "(nat \<Rightarrow> bool option) \<Rightarrow> (nat \<Rightarrow> bool option) \<Rightarrow> environment" where
  "env_with before asleep =
     \<lparr>start_stamp = ''2024-01-01T00:00:00'',
      ticks = (\<lambda>i. \<lparr>write_before = before i, write_asleep = asleep i, hit = (i < 3),
                     pick = i, stamp = ''2024-01-01T00:00:01''\<rparr>),
      end_stamp = ''2024-01-01T00:00:30'',
      traceback_text = ''Traceback (most recent call last): ...''\<rparr>"

text \<open>
  \<open>demo_env False\<close>: no other thread touches the flag. \<open>demo_env True\<close>: another thread
  clears the flag while iteration 4 sleeps.
\<close>

definition demo_env :: "bool \<Rightarrow> environment" where
  "demo_env c =
     env_with (\<lambda>i. None) (\<lambda>i. if c \<and> i = 4 then Some False else None)"

text \<open>Another thread clears the flag while the last iteration, 99, sleeps.\<close>

definition late_clear_env :: environment where
  "late_clear_env = env_with (\<lambda>i. None) (\<lambda>i. if i = 99 then Some False else None)"


text \<open>
  The weight table in the words of the specification: low 1, medium 2, high 3,
  critical 5, and 1 for any other severity.
\<close>

definition spec_severity_weight :: "string \<Rightarrow> int" where
  "spec_severity_weight sev =
     (if sev = ''low'' then 1
      else if sev = ''medium'' then 2
      else if sev = ''high'' then 3
      else if sev = ''critical'' then 5
      else 1)"

section \<open>DOI format check and resolution (guared.py)\<close>

subsection \<open>The fragment of Python's regular expressions that the pattern uses\<close>

text \<open>
  The pattern \<^verbatim>\<open>^10.\d{4,9}/[-._;()/:A-Z0-9]+$\<close> is a sequence of repeated atoms between
  \<^verbatim>\<open>^\<close> and \<^verbatim>\<open>$\<close>. An atom is a literal character, \<^verbatim>\<open>.\<close> (any character but a
  newline), \<^verbatim>\<open>\d\<close>, or a bracketed set of single characters and ranges. A piece is an
  atom with the least and the greatest number of repetitions (\<open>None\<close>: unbounded).
  Characters are bytes here; on them \<^verbatim>\<open>\d\<close> is \<^verbatim>\<open>[0-9]\<close> and case folding is that of
  the ASCII letters.
\<close>

datatype atom = Lit char | AnyChar | Digit | CharSet "char list" "(char \<times> char) list"

datatype piece = Piece atom nat "nat option"

definition in_range :: "char \<Rightarrow> char \<Rightarrow> char \<Rightarrow> bool" where
  "in_range lo hi c = ((of_char lo :: nat) \<le> of_char c \<and> (of_char c :: nat) \<le> of_char hi)"

definition lower :: "char \<Rightarrow> char" where
  "lower c = (if in_range (CHR ''A'') (CHR ''Z'') c then char_of ((of_char c :: nat) + 32) else c)"

definition upper :: "char \<Rightarrow> char" where
  "upper c = (if in_range (CHR ''a'') (CHR ''z'') c then char_of ((of_char c :: nat) - 32) else c)"

definition in_set :: "char list \<Rightarrow> (char \<times> char) list \<Rightarrow> char \<Rightarrow> bool" where
  "in_set singles ranges c =
     (c \<in> set singles \<or> list_ex (\<lambda>r. in_range (fst r) (snd r) c) ranges)"

text \<open>Does the character match the atom? \<open>ic\<close> is the flag \<^verbatim>\<open>re.IGNORECASE\<close>.\<close>

fun atom_matches :: "bool \<Rightarrow> atom \<Rightarrow> char \<Rightarrow> bool" where
  "atom_matches ic (Lit x) c = (c = x \<or> (ic \<and> lower c = lower x))"
| "atom_matches ic AnyChar c = (c \<noteq> CHR 0x0A)"
| "atom_matches ic Digit c = in_range (CHR ''0'') (CHR ''9'') c"
| "atom_matches ic (CharSet singles ranges) c =
     (in_set singles ranges c \<or>
      (ic \<and> (in_set singles ranges (lower c) \<or> in_set singles ranges (upper c))))"

text \<open>
  \<open>matches_from ic ps s\<close>: the pieces \<open>ps\<close> followed by \<^verbatim>\<open>$\<close> match the text \<open>s\<close> from
  its start. A piece may take any number of leading characters that match its atom,
  within its bounds; the longest choice is tried first and shorter ones on failure.
  Without \<^verbatim>\<open>re.MULTILINE\<close>, \<^verbatim>\<open>$\<close> matches at the end of the text and just before a
  newline that ends the text.
\<close>

fun matches_from :: "bool \<Rightarrow> piece list \<Rightarrow> string \<Rightarrow> bool" where
  "matches_from ic [] s = (s = [] \<or> s = [CHR 0x0A])"
| "matches_from ic (Piece a least most # ps) s =
     (let available = length (takeWhile (atom_matches ic a) s);
          greatest = (case most of None \<Rightarrow> available | Some m \<Rightarrow> min m available)
      in list_ex (\<lambda>k. matches_from ic ps (drop k s)) (rev [least..<Suc greatest]))"

text \<open>\<^verbatim>\<open>re.match(pattern, text, flags)\<close> for a pattern of the form \<^verbatim>\<open>^pieces$\<close>.\<close>

definition re_match :: "piece list \<Rightarrow> string \<Rightarrow> bool \<Rightarrow> bool" where
  "re_match pieces s ic = matches_from ic pieces s"

text \<open>\<^verbatim>\<open>r'^10.\d{4,9}/[-._;()/:A-Z0-9]+$'\<close>\<close>

definition doi_pattern :: "piece list" where
  "doi_pattern =
     [Piece (Lit (CHR ''1'')) 1 (Some 1),
      Piece (Lit (CHR ''0'')) 1 (Some 1),
      Piece AnyChar 1 (Some 1),
      Piece Digit 4 (Some 9),
      Piece (Lit (CHR ''/'')) 1 (Some 1),
      Piece (CharSet ''-._;()/:'' [(CHR ''A'', CHR ''Z''), (CHR ''0'', CHR ''9'')]) 1 None]"

subsection \<open>is\_valid\_doi\_format, retry\_request, validate\_doi\<close>

text \<open>
  \<^verbatim>\<open>
  if not doi or not isinstance(doi, str):
      return False
  pattern = r'^10.\d{4,9}/[-._;()/:A-Z0-9]+$'
  return re.match(pattern, doi, re.IGNORECASE) is not None
  \<close>
\<close>

definition is_str :: "pyval \<Rightarrow> bool" where
  "is_str v = (case v of PStr s \<Rightarrow> True | _ \<Rightarrow> False)"

definition is_valid_doi_format :: "pyval \<Rightarrow> bool" where
  "is_valid_doi_format doi =
     (if \<not> truthy doi \<or> \<not> is_str doi then False
      else (case doi of PStr s \<Rightarrow> re_match doi_pattern s True | _ \<Rightarrow> False))"

text \<open>
  The network is a function from the attempt number to what the request does: it returns
  a response with a status code, or raises \<^verbatim>\<open>requests.RequestException\<close>.
  \<open>retry_request\<close> returns the response (its status) or \<open>None\<close>, together with the list of
  requests it has sent, as pairs of method and URL.
  \<^verbatim>\<open>
  for attempt in range(retries):
      try:
          if method == 'head':   response = requests.head(url, ...)
          elif method == 'get':  response = requests.get(url, ...)
          else:                  return None
          if response.status_code == 200:
              return response
      except requests.RequestException as e:
          ...log...; time.sleep(2 ** attempt)
  return None
  \<close>
\<close>

datatype reply = Status nat | RequestException

fun retry_from ::
  "(nat \<Rightarrow> reply) \<Rightarrow> string \<Rightarrow> string \<Rightarrow> nat \<Rightarrow> nat \<Rightarrow> nat option \<times> (string \<times> string) list" where
  "retry_from net url method 0 attempt = (None, [])"
| "retry_from net url method (Suc n) attempt =
     (if method \<noteq> ''head'' \<and> method \<noteq> ''get'' then (None, [])
      else (case net attempt of
              Status code \<Rightarrow>
                if code = 200 then (Some code, [(method, url)])
                else (let (response, sent) = retry_from net url method n (Suc attempt)
                      in (response, (method, url) # sent))
            | RequestException \<Rightarrow>
                (let (response, sent) = retry_from net url method n (Suc attempt)
                 in (response, (method, url) # sent))))"

definition retry_request ::
  "(nat \<Rightarrow> reply) \<Rightarrow> string \<Rightarrow> string \<Rightarrow> nat \<Rightarrow> nat option \<times> (string \<times> string) list" where
  "retry_request net url method retries = retry_from net url method retries 0"

text \<open>
  \<^verbatim>\<open>
  if not is_valid_doi_format(doi):
      return False
  url = f"https://doi.org/{doi}"
  response = retry_request(url, method='head')
  return response is not None
  \<close>
  The result is paired with the requests sent. Past the format check \<^verbatim>\<open>doi\<close> is a
  string, so the f-string is the concatenation.
\<close>

definition validate_doi :: "(nat \<Rightarrow> reply) \<Rightarrow> pyval \<Rightarrow> bool \<times> (string \<times> string) list" where
  "validate_doi net doi =
     (if \<not> is_valid_doi_format doi then (False, [])
      else (case doi of
              PStr s \<Rightarrow>
                (let (response, sent) = retry_request net (''https://doi.org/'' @ s) ''head'' 3
                 in (response \<noteq> None, sent))
            | _ \<Rightarrow> (False, [])))"



text \<open>A network on which every request is answered with status 200.\<close>

definition always_ok :: "nat \<Rightarrow> reply" where
  "always_ok attempt = Status 200"

section \<open>Properties of the session state initialisation\<close>

lemma setdefault_apply:
  "setdefault k d st k' =
     (case st k' of Some v \<Rightarrow> Some v | None \<Rightarrow> if k' = k then Some d else None)"
  by (simp add: setdefault_def split: option.splits)

lemma assign_if_absent_eq: "assign_if_absent k d st = setdefault k d st"
  by (auto simp: assign_if_absent_def setdefault_def split: option.splits)

lemma fold_setdefault_apply:
  "fold (\<lambda>(k, v). setdefault k v) ds st k =
     (case st k of Some v \<Rightarrow> Some v | None \<Rightarrow> map_of ds k)"
  by (induction ds arbitrary: st) (auto simp: setdefault_apply split: option.splits)

lemma initialize_session_state_apply:
  "initialize_session_state st k =
     (case st k of Some v \<Rightarrow> Some v | None \<Rightarrow> map_of session_defaults k)"
  by (simp add: initialize_session_state_def fold_setdefault_apply)

lemma guared_initialize_eq:
  "guared_initialize_session_state st = initialize_session_state st"
proof -
  have "(\<lambda>(k, v). assign_if_absent k v) = (\<lambda>(k, v). setdefault k v)"
    by (simp add: fun_eq_iff assign_if_absent_eq)
  then show ?thesis
    by (simp add: guared_initialize_session_state_def initialize_session_state_def)
qed

lemma distinct_session_defaults: "distinct (map fst session_defaults)"
  by (simp add: session_defaults_def)

lemma initialize_twice:
  "initialize_session_state (initialize_session_state st) = initialize_session_state st"
  by (rule ext) (simp add: initialize_session_state_apply split: option.splits)

text \<open>
  Claim C8. Initialisation never overwrites a key that is present: a key \<open>k\<close> holding
  \<open>v\<close> still holds \<open>v\<close> afterwards; and an absent key \<open>k'\<close> that has the default \<open>d\<close> in
  the enumerated list holds \<open>d\<close> afterwards. Both hold for the version of
  session\_state.py and for the version of guared.py.
\<close>

theorem initialize_session_state_keeps_present_keys:
  "(st k = Some v \<longrightarrow>
      initialize_session_state st k = Some v \<and>
      guared_initialize_session_state st k = Some v) \<and>
   (st k' = None \<longrightarrow> (k', d) \<in> set session_defaults \<longrightarrow>
      initialize_session_state st k' = Some d \<and>
      guared_initialize_session_state st k' = Some d)"
  using distinct_session_defaults
  by (simp add: guared_initialize_eq initialize_session_state_apply)

text \<open>
  At the session state in which only \<^verbatim>\<open>running_test\<close> is set, to \<^verbatim>\<open>True\<close>:
  re-initialising leaves it \<^verbatim>\<open>True\<close>, and the absent \<^verbatim>\<open>progress\<close> becomes 0.
\<close>

theorem initialize_session_state_keeps_present_keys_witness:
  "[''running_test'' \<mapsto> PBool True] ''running_test'' = Some (PBool True) \<and>
   [''running_test'' \<mapsto> PBool True] ''progress'' = None \<and>
   (''progress'', PInt 0) \<in> set session_defaults \<and>
   initialize_session_state [''running_test'' \<mapsto> PBool True] ''running_test''
     = Some (PBool True) \<and>
   guared_initialize_session_state [''running_test'' \<mapsto> PBool True] ''running_test''
     = Some (PBool True) \<and>
   initialize_session_state [''running_test'' \<mapsto> PBool True] ''progress'' = Some (PInt 0) \<and>
   guared_initialize_session_state [''running_test'' \<mapsto> PBool True] ''progress''
     = Some (PInt 0)"
  using initialize_session_state_keeps_present_keys
    [of "[''running_test'' \<mapsto> PBool True]" "''running_test''" "PBool True"
        "''progress''" "PInt 0"]
  by (simp add: session_defaults_def)

section \<open>Properties of the handle pruning\<close>

lemma track_future_fresh:
  "track_future (PHandle (Future False)) Map.empty
     = Inr [''active_threads'' \<mapsto> PList [PHandle (Future False)]]"
  by (simp add: track_future_def setdefault_def)

lemma guared_track_future_absent:
  "guared_track_future (PHandle (Future False)) Map.empty = Map.empty"
  by (simp add: guared_track_future_def)

lemma alive_only_threads:
  "alive_only (thread_handles as) = Inr (thread_handles (filter (\<lambda>a. a) as))"
  by (induction as) (simp_all add: thread_handles_def)

lemma alive_only_kept:
  "alive_only thrs = Inr kept \<Longrightarrow> alive_only kept = Inr kept"
proof (induction thrs arbitrary: kept)
  case Nil
  then show ?case by simp
next
  case (Cons thr rest)
  then show ?case
    by (auto split: sum.splits if_splits)
qed

text \<open>On a list of threads the pruning keeps exactly the live ones.\<close>

lemma cleanup_threads_on_threads:
  "st ''active_threads'' = Some (PList (thread_handles as)) \<Longrightarrow>
   cleanup_threads st =
     st(''active_threads'' \<mapsto> PList (thread_handles (filter (\<lambda>a. a) as)))"
  by (simp add: cleanup_threads_def alive_only_threads)

text \<open>A second pruning changes nothing, whatever the list holds.\<close>

lemma cleanup_threads_idempotent:
  "cleanup_threads (cleanup_threads st) = cleanup_threads st"
  by (auto simp: cleanup_threads_def Let_def alive_only_kept split: sum.splits option.splits)

lemma guared_cleanup_threads_idempotent:
  "guared_cleanup_threads (guared_cleanup_threads st) = guared_cleanup_threads st"
  by (auto simp: guared_cleanup_threads_def alive_only_kept split: sum.splits option.splits)

text \<open>
  Claim C5. The tracked handles are the futures that \<^verbatim>\<open>executor.submit\<close> returns, and a
  future has no \<^verbatim>\<open>is_alive\<close>: on the list that holds one future whose task has finished,
  the comprehension raises, the handler logs, and the finished handle is still in the
  list afterwards, in both versions.
\<close>

theorem cleanup_threads_keeps_finished_future:
  "cleanup_threads [''active_threads'' \<mapsto> PList [PHandle (Future True)]] ''active_threads''
     = Some (PList [PHandle (Future True)]) \<and>
   guared_cleanup_threads [''active_threads'' \<mapsto> PList [PHandle (Future True)]]
       ''active_threads''
     = Some (PList [PHandle (Future True)])"
  by (simp add: cleanup_threads_def guared_cleanup_threads_def)

section \<open>Properties of the simulated assessment task\<close>

lemma increment_other:
  "increment k st = Inr st' \<Longrightarrow> k' \<noteq> k \<Longrightarrow> st' k' = st k'"
  by (auto simp: increment_def split: option.splits pyval.splits)

lemma increment_found_keeps:
  assumes "increment ''vulnerabilities_found'' st = Inr st'"
  shows "st' ''running_test'' = st ''running_test''" and "st' ''progress'' = st ''progress''"
  using assms by (simp_all add: increment_other)

lemma synthesize_keeps:
  assumes "synthesize dt tg vs tk s = Inr s'"
  shows "progress_writes s' = progress_writes s"
    and "sess s' ''running_test'' = sess s ''running_test''"
    and "sess s' ''progress'' = sess s ''progress''"
  using assms
  by (auto simp: synthesize_def Let_def split: sum.splits dest: increment_found_keeps)

lemma other_thread_writes_flag:
  "other_thread_writes w st ''running_test'' =
     (case w of None \<Rightarrow> st ''running_test'' | Some b \<Rightarrow> Some (PBool b))"
  by (simp add: other_thread_writes_def split: option.splits)

text \<open>
  One iteration, by cases: the loop is left before the write (\<open>stop\<close>), an exception
  ends it after the write (\<open>fail\<close>), or the next iteration starts (\<open>continue\<close>).
\<close>

lemma mock_loop_Suc_cases:
  assumes "mock_loop dt tg vs sl tks (Suc n) i s = (fin, s')"
  obtains
    (stop) "progress_writes s' = progress_writes s"
      "fin \<noteq> Completed"
      "fin = Cancelled \<Longrightarrow>
         write_before (tks i) = Some False \<or>
         (write_before (tks i) = None \<and> sess s ''running_test'' \<noteq> Some (PBool True))"
  | (fail) e where
      "progress_writes s' = progress_writes s @ [(of_nat i + 1) / 100]"
      "fin = Failed e"
  | (continue) s4 where
      "progress_writes s4 = progress_writes s @ [(of_nat i + 1) / 100]"
      "sess s4 ''running_test'' =
         (case write_asleep (tks i) of
            Some b \<Rightarrow> Some (PBool b)
          | None \<Rightarrow>
              (case write_before (tks i) of
                 Some b \<Rightarrow> Some (PBool b)
               | None \<Rightarrow> sess s ''running_test''))"
      "write_before (tks i) \<noteq> Some False"
      "mock_loop dt tg vs sl tks n (Suc i) s4 = (fin, s')"
proof -
  let ?s1 = "s\<lparr>sess := other_thread_writes (write_before (tks i)) (sess s)\<rparr>"
  let ?s2 = "?s1\<lparr>sess := other_thread_writes (write_asleep (tks i)) (sess ?s1)\<rparr>"
  let ?p = "(of_nat i + 1) / 100 :: rat"
  let ?s3 = "?s2\<lparr>sess := (sess ?s2)(''progress'' \<mapsto> PFloat ?p),
                  progress_writes := progress_writes ?s2 @ [?p]\<rparr>"
  show thesis
  proof (cases "getitem (sess ?s1) ''running_test''")
    case (Inl e)
    with assms have "fin = Failed e" "s' = ?s1" by (simp_all add: Let_def)
    then show ?thesis by (intro stop) simp_all
  next
    case (Inr flag)
    show ?thesis
    proof (cases "truthy flag")
      case False
      with Inr assms have "fin = Cancelled" "s' = ?s1" by (simp_all add: Let_def)
      moreover have "write_before (tks i) = Some False \<or>
         (write_before (tks i) = None \<and> sess s ''running_test'' \<noteq> Some (PBool True))"
        using Inr False
        by (cases "write_before (tks i)")
           (auto simp: getitem_def other_thread_writes_def split: option.splits)
      ultimately show ?thesis by (intro stop) simp_all
    next
      case True
      have nb: "write_before (tks i) \<noteq> Some False"
        using Inr True by (auto simp: getitem_def other_thread_writes_def)
      show ?thesis
      proof (cases "sl < 0")
        case neg: True
        with Inr True assms have "fin = Failed (ValueError ''sleep length must be non-negative'')"
          "s' = ?s1" by (simp_all add: Let_def)
        then show ?thesis by (intro stop) simp_all
      next
        case False
        have flag3: "sess ?s3 ''running_test'' =
           (case write_asleep (tks i) of
              Some b \<Rightarrow> Some (PBool b)
            | None \<Rightarrow>
                (case write_before (tks i) of
                   Some b \<Rightarrow> Some (PBool b)
                 | None \<Rightarrow> sess s ''running_test''))"
          by (simp add: other_thread_writes_flag split: option.splits)
        show ?thesis
        proof (cases "hit (tks i)")
          case nohit: False
          with Inr True False assms
          have "mock_loop dt tg vs sl tks n (Suc i) ?s3 = (fin, s')"
            by (simp add: Let_def)
          then show ?thesis using flag3 nb by (intro continue[of ?s3]) simp_all
        next
          case hit: True
          show ?thesis
          proof (cases "synthesize dt tg vs (tks i) ?s3")
            case (Inl e)
            with Inr True False hit assms have "fin = Failed e" "s' = ?s3"
              by (simp_all add: Let_def)
            then show ?thesis by (intro fail[of e]) simp_all
          next
            case syn: (Inr s4)
            with Inr True False hit assms
            have "mock_loop dt tg vs sl tks n (Suc i) s4 = (fin, s')"
              by (simp add: Let_def)
            moreover have "progress_writes s4 = progress_writes s @ [?p]"
              using synthesize_keeps(1)[OF syn] by simp
            moreover have "sess s4 ''running_test'' =
               (case write_asleep (tks i) of
                  Some b \<Rightarrow> Some (PBool b)
                | None \<Rightarrow>
                    (case write_before (tks i) of
                       Some b \<Rightarrow> Some (PBool b)
                     | None \<Rightarrow> sess s ''running_test''))"
              using synthesize_keeps(2)[OF syn] flag3 by simp
            ultimately show ?thesis using nb by (intro continue[of s4]) simp_all
          qed
        qed
      qed
    qed
  qed
qed

lemma mock_loop_writes:
  "mock_loop dt tg vs sl tks n i s = (fin, s') \<Longrightarrow>
   \<exists>m\<le>n. progress_writes s' = progress_writes s @ map (\<lambda>j. (of_nat j + 1) / 100) [i..<i + m]
      \<and> (fin = Completed \<longrightarrow> m = n) \<and> (fin = Cancelled \<longrightarrow> m < n)"
proof (induction n arbitrary: i s)
  case 0
  then show ?case by simp
next
  case (Suc n)
  from Suc.prems show ?case
  proof (cases rule: mock_loop_Suc_cases)
    case stop
    then show ?thesis by (intro exI[of _ 0]) auto
  next
    case (fail e)
    then show ?thesis by (intro exI[of _ 1]) simp
  next
    case (continue s4)
    from Suc.IH[OF continue(4)] obtain m where m: "m \<le> n"
      "progress_writes s' = progress_writes s4 @ map (\<lambda>j. (of_nat j + 1) / 100) [Suc i..<Suc i + m]"
      "fin = Completed \<longrightarrow> m = n" "fin = Cancelled \<longrightarrow> m < n" by blast
    with continue(1) show ?thesis
      by (intro exI[of _ "Suc m"]) (simp add: upt_rec[of i])
  qed
qed




lemma finally_reset_simps:
  "written (finally_reset r) = written r"
  "outcome (finally_reset r) = outcome r"
  "returned (finally_reset r) = returned r"
  "session (finally_reset r) ''running_test'' = Some (PBool False)"
  by (simp_all add: finally_reset_def)

lemma security_tests_try_no_name:
  assumes "tg ''name'' = None"
  shows "written (security_tests_try tg vs d ev st) = [0]"
    and "outcome (security_tests_try tg vs d ev st) = Failed (KeyError ''name'')"
    and "returned (security_tests_try tg vs d ev st) =
           PDict [(''error'', PBool True), (''error_message'', PStr (str_exn (KeyError ''name'')))]"
  using assms
  by (simp_all add: security_tests_try_def getitem_def security_tests_except_def task_start_def)

lemma security_tests_try_loop:
  assumes "tg ''name'' = Some tn"
    and "mock_loop details_security_tests tg vs (d / 100) (ticks ev) 100 0 (task_start st) = (fin, s)"
  shows "written (security_tests_try tg vs d ev st) = progress_writes s"
    and "outcome (security_tests_try tg vs d ev st) = fin"
    and "fin = Failed e \<Longrightarrow> returned (security_tests_try tg vs d ev st) =
           PDict [(''error'', PBool True), (''error_message'', PStr (str_exn e))]"
    and "fin = Completed \<or> fin = Cancelled \<Longrightarrow>
         returned (security_tests_try tg vs d ev st) =
           PDict [(''summary'', summary_dict ((results_summary s)
                     \<lparr>total_tests := int (length vs) * 10\<rparr>)),
                  (''vulnerabilities'', PList (map vulnerability_dict (results_vulnerabilities s))),
                  (''timestamp'', PStr (start_stamp ev)),
                  (''target'', PStr tn)]"
  using assms
  by (auto simp: security_tests_try_def getitem_def security_tests_except_def
      split: ending.splits)

lemma guared_try_no_name:
  assumes "tg ''name'' = None"
  shows "written (guared_try tg vs d ev st) = [0]"
    and "outcome (guared_try tg vs d ev st) = Failed (KeyError ''name'')"
    and "returned (guared_try tg vs d ev st) =
           PDict [(''error'', PBool True),
                  (''error_message'', PStr (str_exn (KeyError ''name''))),
                  (''traceback'', PStr (traceback_text ev)),
                  (''timestamp'', PStr (end_stamp ev))]"
  using assms
  by (simp_all add: guared_try_def getitem_def guared_except_def task_start_def)

lemma guared_try_loop:
  assumes "tg ''name'' = Some tn"
    and "mock_loop details_guared tg vs (d / 100) (ticks ev) 100 0 (task_start st) = (fin, s)"
  shows "written (guared_try tg vs d ev st) = progress_writes s"
    and "outcome (guared_try tg vs d ev st) = fin"
    and "fin = Failed e \<Longrightarrow> returned (guared_try tg vs d ev st) =
           PDict [(''error'', PBool True),
                  (''error_message'', PStr (str_exn e)),
                  (''traceback'', PStr (traceback_text ev)),
                  (''timestamp'', PStr (end_stamp ev))]"
    and "fin = Completed \<or> fin = Cancelled \<Longrightarrow>
         returned (guared_try tg vs d ev st) =
           PDict [(''summary'', summary_dict ((results_summary s)
                     \<lparr>total_tests := int (length vs) * 10\<rparr>)),
                  (''vulnerabilities'', PList (map vulnerability_dict (results_vulnerabilities s))),
                  (''test_details'', PDict []),
                  (''timestamp'', PStr (end_stamp ev)),
                  (''target'', PStr tn)]"
  using assms
  by (auto simp: guared_try_def getitem_def guared_except_def Let_def
      split: ending.splits)

text \<open>The values written by a whole run: 0, then one value per iteration reached.\<close>

lemma loop_from_start_writes:
  assumes "mock_loop dt tg vs sl tks 100 0 (task_start st) = (fin, s)"
  shows "\<exists>m\<le>100. progress_writes s = 0 # map (\<lambda>j. (of_nat j + 1) / 100) [0..<m]
           \<and> (fin = Completed \<longrightarrow> m = 100) \<and> (fin = Cancelled \<longrightarrow> m < 100)"
  using mock_loop_writes[OF assms] by (simp add: task_start_def)

lemma security_tests_try_written:
  "\<exists>m\<le>100. written (security_tests_try tg vs d ev st)
              = 0 # map (\<lambda>j. (of_nat j + 1) / 100) [0..<m]
      \<and> (outcome (security_tests_try tg vs d ev st) = Completed \<longrightarrow> m = 100)
      \<and> (outcome (security_tests_try tg vs d ev st) = Cancelled \<longrightarrow> m < 100)"
proof (cases "tg ''name''")
  case None
  then show ?thesis
    by (intro exI[of _ 0]) (simp add: security_tests_try_no_name)
next
  case (Some tn)
  obtain fin s where loop:
    "mock_loop details_security_tests tg vs (d / 100) (ticks ev) 100 0 (task_start st) = (fin, s)"
    by (cases "mock_loop details_security_tests tg vs (d / 100) (ticks ev) 100 0 (task_start st)")
  from loop_from_start_writes[OF loop] security_tests_try_loop(1,2)[OF Some loop]
  show ?thesis by simp
qed

lemma guared_try_written:
  "\<exists>m\<le>100. written (guared_try tg vs d ev st)
              = 0 # map (\<lambda>j. (of_nat j + 1) / 100) [0..<m]
      \<and> (outcome (guared_try tg vs d ev st) = Completed \<longrightarrow> m = 100)
      \<and> (outcome (guared_try tg vs d ev st) = Cancelled \<longrightarrow> m < 100)"
proof (cases "tg ''name''")
  case None
  then show ?thesis
    by (intro exI[of _ 0]) (simp add: guared_try_no_name)
next
  case (Some tn)
  obtain fin s where loop:
    "mock_loop details_guared tg vs (d / 100) (ticks ev) 100 0 (task_start st) = (fin, s)"
    by (cases "mock_loop details_guared tg vs (d / 100) (ticks ev) 100 0 (task_start st)")
  from loop_from_start_writes[OF loop] guared_try_loop(1,2)[OF Some loop]
  show ?thesis by simp
qed

text \<open>Facts about the list 0, 1/100, ..., m/100.\<close>

lemma tick_values_sorted:
  "sorted (0 # map (\<lambda>j. (of_nat j + 1) / 100 :: rat) [0..<m])"
proof -
  have "sorted (map (\<lambda>j. (of_nat j + 1) / 100 :: rat) [0..<m])"
    by (rule sorted_map[THEN iffD2], rule sorted_wrt_mono_rel[OF _ sorted_upt])
       (simp add: divide_right_mono)
  then show ?thesis by auto
qed

lemma tick_values_last:
  "last (0 # map (\<lambda>j. (of_nat j + 1) / 100 :: rat) [0..<m]) = of_nat m / 100"
  by (induction m) simp_all


lemma run_written_shape:
  "\<exists>m\<le>100. written (run_mock_test tg vs d ev st)
              = 0 # map (\<lambda>j. (of_nat j + 1) / 100) [0..<m]
      \<and> (outcome (run_mock_test tg vs d ev st) = Completed \<longrightarrow> m = 100)
      \<and> (outcome (run_mock_test tg vs d ev st) = Cancelled \<longrightarrow> m < 100)"
  using security_tests_try_written[of tg vs d ev st]
  by (simp add: run_mock_test_def finally_reset_simps)

lemma guared_run_written_shape:
  "\<exists>m\<le>100. written (guared_run_mock_test tg vs d ev st)
              = 0 # map (\<lambda>j. (of_nat j + 1) / 100) [0..<m]
      \<and> (outcome (guared_run_mock_test tg vs d ev st) = Completed \<longrightarrow> m = 100)
      \<and> (outcome (guared_run_mock_test tg vs d ev st) = Cancelled \<longrightarrow> m < 100)"
  using guared_try_written[of tg vs d ev st]
  by (simp add: guared_run_mock_test_def finally_reset_simps)

lemma written_shape_final:
  assumes "m \<le> 100" "w = 0 # map (\<lambda>j. (of_nat j + 1) / 100 :: rat) [0..<m]"
    "fin = Completed \<longrightarrow> m = 100" "fin = Cancelled \<longrightarrow> m < 100"
  shows "sorted w"
    and "\<forall>e. fin \<noteq> Failed e \<Longrightarrow> (last w = 1) = (fin \<noteq> Cancelled)"
proof -
  show "sorted w" using assms(2) tick_values_sorted by simp
  assume nf: "\<forall>e. fin \<noteq> Failed e"
  have l: "last w = of_nat m / 100" using assms(2) tick_values_last by simp
  show "(last w = 1) = (fin \<noteq> Cancelled)"
  proof (cases fin)
    case Completed
    with assms(3) l show ?thesis by simp
  next
    case Cancelled
    with assms(4) l show ?thesis by simp
  next
    case (Failed e)
    with nf show ?thesis by simp
  qed
qed

text \<open>
  Claim C1, as amended. In every run the values written to \<^verbatim>\<open>progress\<close> are
  non-decreasing; and in every run that is not ended by an exception, the last written
  value is exactly 1 if and only if the run was not cancelled, where a run is cancelled
  when one of the loop's checks finds the flag false and the loop is left by
  \<^verbatim>\<open>break\<close>. (For both versions of \<^verbatim>\<open>run_mock_test\<close>.)
\<close>

theorem progress_nondecreasing_and_final_value:
  "sorted (written (run_mock_test tg vs d ev st)) \<and>
   sorted (written (guared_run_mock_test tg vs d ev st)) \<and>
   ((\<forall>e. outcome (run_mock_test tg vs d ev st) \<noteq> Failed e) \<longrightarrow>
      (last (written (run_mock_test tg vs d ev st)) = 1) =
      (outcome (run_mock_test tg vs d ev st) \<noteq> Cancelled)) \<and>
   ((\<forall>e. outcome (guared_run_mock_test tg vs d ev st) \<noteq> Failed e) \<longrightarrow>
      (last (written (guared_run_mock_test tg vs d ev st)) = 1) =
      (outcome (guared_run_mock_test tg vs d ev st) \<noteq> Cancelled))"
proof -
  obtain m where m: "m \<le> 100"
    "written (run_mock_test tg vs d ev st) = 0 # map (\<lambda>j. (of_nat j + 1) / 100) [0..<m]"
    "outcome (run_mock_test tg vs d ev st) = Completed \<longrightarrow> m = 100"
    "outcome (run_mock_test tg vs d ev st) = Cancelled \<longrightarrow> m < 100"
    using run_written_shape[of tg vs d ev st] by blast
  obtain m' where m': "m' \<le> 100"
    "written (guared_run_mock_test tg vs d ev st) = 0 # map (\<lambda>j. (of_nat j + 1) / 100) [0..<m']"
    "outcome (guared_run_mock_test tg vs d ev st) = Completed \<longrightarrow> m' = 100"
    "outcome (guared_run_mock_test tg vs d ev st) = Cancelled \<longrightarrow> m' < 100"
    using guared_run_written_shape[of tg vs d ev st] by blast
  from written_shape_final[OF m] written_shape_final[OF m'] show ?thesis by blast
qed

lemma demo_run_completes:
  "outcome (run_mock_test demo_target get_mock_test_vectors 30 (demo_env False) Map.empty)
     = Completed"
  by code_simp

lemma guared_demo_run_completes:
  "outcome (guared_run_mock_test demo_target get_mock_test_vectors 30 (demo_env False) Map.empty)
     = Completed"
  by code_simp

text \<open>
  The run on the built-in catalogue in which nobody clears the flag is not ended by an
  exception, and its last written value is 1.
\<close>

theorem progress_nondecreasing_and_final_value_witness:
  "(\<forall>e. outcome (run_mock_test demo_target get_mock_test_vectors 30 (demo_env False) Map.empty)
        \<noteq> Failed e) \<and>
   (\<forall>e. outcome (guared_run_mock_test demo_target get_mock_test_vectors 30 (demo_env False)
        Map.empty) \<noteq> Failed e) \<and>
   sorted (written (run_mock_test demo_target get_mock_test_vectors 30 (demo_env False) Map.empty)) \<and>
   last (written (run_mock_test demo_target get_mock_test_vectors 30 (demo_env False) Map.empty)) = 1 \<and>
   last (written (guared_run_mock_test demo_target get_mock_test_vectors 30 (demo_env False)
     Map.empty)) = 1"
  using progress_nondecreasing_and_final_value
    [of demo_target get_mock_test_vectors 30 "demo_env False" Map.empty]
  by (simp add: demo_run_completes guared_demo_run_completes)

text \<open>
  Claim C1 as stated fails in two ways. A run that an exception ends stops below 1
  although the flag was never cleared: with an empty list of test vectors and a
  vulnerability drawn in iteration 0, \<^verbatim>\<open>random.choice\<close> raises, and the values written
  are 0 and 1/100. And a run in which the flag does not stay true still ends at exactly
  1 when no check sees the change: with the flag cleared while the last iteration, 99,
  sleeps, the loop runs out of iterations and the last value written is 1.
\<close>

theorem final_progress_counterexample:
  "outcome (run_mock_test demo_target [] 30 (demo_env False) Map.empty)
     = Failed (IndexError ''Cannot choose from an empty sequence'') \<and>
   written (run_mock_test demo_target [] 30 (demo_env False) Map.empty) = [0, 1 / 100] \<and>
   \<not> ((last (written (run_mock_test demo_target [] 30 (demo_env False) Map.empty)) = 1) =
      (outcome (run_mock_test demo_target [] 30 (demo_env False) Map.empty) \<noteq> Cancelled)) \<and>
   write_asleep (ticks late_clear_env 99) = Some False \<and>
   outcome (run_mock_test demo_target get_mock_test_vectors 30 late_clear_env Map.empty)
     = Completed \<and>
   last (written (run_mock_test demo_target get_mock_test_vectors 30 late_clear_env Map.empty))
     = 1"
  by code_simp






lemma demo_cancelled_run:
  "outcome (run_mock_test demo_target get_mock_test_vectors 30 (demo_env True) Map.empty)
     = Cancelled"
  "written (run_mock_test demo_target get_mock_test_vectors 30 (demo_env True) Map.empty)
     = [0, 1 / 100, 2 / 100, 3 / 100, 4 / 100, 5 / 100]"
  by code_simp+

lemma guared_demo_cancelled_run:
  "outcome (guared_run_mock_test demo_target get_mock_test_vectors 30 (demo_env True) Map.empty)
     = Cancelled"
  "written (guared_run_mock_test demo_target get_mock_test_vectors 30 (demo_env True) Map.empty)
     = [0, 1 / 100, 2 / 100, 3 / 100, 4 / 100, 5 / 100]"
  by code_simp+



text \<open>
  Claim C3. However the run ends, \<^verbatim>\<open>running_test\<close> is \<^verbatim>\<open>False\<close> in the session state
  that the call leaves behind.
\<close>

theorem running_flag_false_on_return:
  "session (run_mock_test tg vs d ev st) ''running_test'' = Some (PBool False) \<and>
   session (guared_run_mock_test tg vs d ev st) ''running_test'' = Some (PBool False)"
  by (simp add: run_mock_test_def guared_run_mock_test_def finally_reset_simps)

lemma severity_weight_spec: "severity_weight sev = spec_severity_weight sev"
  by (simp add: severity_weight_def spec_severity_weight_def)

lemma synthesize_tallies:
  assumes "synthesize dt tg vs tk s = Inr s'"
    and "risk_score (results_summary s)
           = (\<Sum>v\<leftarrow>results_vulnerabilities s. severity_weight (severity v))"
    and "vulnerabilities_found (results_summary s) = int (length (results_vulnerabilities s))"
  shows "risk_score (results_summary s')
           = (\<Sum>v\<leftarrow>results_vulnerabilities s'. severity_weight (severity v))"
    and "vulnerabilities_found (results_summary s') = int (length (results_vulnerabilities s'))"
  using assms
  by (auto simp: synthesize_def Let_def split: sum.splits)

lemma mock_loop_tallies:
  "mock_loop dt tg vs sl tks n i s = (fin, s') \<Longrightarrow>
   risk_score (results_summary s)
     = (\<Sum>v\<leftarrow>results_vulnerabilities s. severity_weight (severity v)) \<Longrightarrow>
   vulnerabilities_found (results_summary s) = int (length (results_vulnerabilities s)) \<Longrightarrow>
   risk_score (results_summary s')
     = (\<Sum>v\<leftarrow>results_vulnerabilities s'. severity_weight (severity v)) \<and>
   vulnerabilities_found (results_summary s') = int (length (results_vulnerabilities s'))"
proof (induction n arbitrary: i s)
  case 0
  then show ?case by simp
next
  case (Suc n)
  let ?s1 = "s\<lparr>sess := other_thread_writes (write_before (tks i)) (sess s)\<rparr>"
  let ?s2 = "?s1\<lparr>sess := other_thread_writes (write_asleep (tks i)) (sess ?s1)\<rparr>"
  let ?p = "(of_nat i + 1) / 100 :: rat"
  let ?s3 = "?s2\<lparr>sess := (sess ?s2)(''progress'' \<mapsto> PFloat ?p),
                  progress_writes := progress_writes ?s2 @ [?p]\<rparr>"
  consider (same) "results_summary s' = results_summary s"
      "results_vulnerabilities s' = results_vulnerabilities s"
    | (hit) s4 where "synthesize dt tg vs (tks i) ?s3 = Inr s4"
        "mock_loop dt tg vs sl tks n (Suc i) s4 = (fin, s')"
    | (miss) "mock_loop dt tg vs sl tks n (Suc i) ?s3 = (fin, s')"
    using Suc.prems(1) by (auto simp: Let_def split: sum.splits if_splits)
  then show ?case
  proof cases
    case same
    with Suc.prems show ?thesis by simp
  next
    case hit
    from synthesize_tallies[OF hit(1)] Suc.prems(2,3)
    have "risk_score (results_summary s4)
            = (\<Sum>v\<leftarrow>results_vulnerabilities s4. severity_weight (severity v))"
      "vulnerabilities_found (results_summary s4) = int (length (results_vulnerabilities s4))"
      by simp_all
    from Suc.IH[OF hit(2) this] show ?thesis .
  next
    case miss
    from Suc.IH[OF miss] Suc.prems(2,3) show ?thesis by simp
  qed
qed

lemma loop_from_start_tallies:
  assumes "mock_loop dt tg vs sl tks 100 0 (task_start st) = (fin, s)"
  shows "risk_score (results_summary s)
           = (\<Sum>v\<leftarrow>results_vulnerabilities s. spec_severity_weight (severity v))"
    and "vulnerabilities_found (results_summary s) = int (length (results_vulnerabilities s))"
  using mock_loop_tallies[OF assms] by (simp_all add: task_start_def severity_weight_spec)

text \<open>What a run that is not ended by an exception returns.\<close>

lemma run_mock_test_returns:
  assumes "outcome (run_mock_test tg vs d ev st) = Completed \<or>
           outcome (run_mock_test tg vs d ev st) = Cancelled"
  shows "\<exists>tn vulns. tg ''name'' = Some tn \<and>
     returned (run_mock_test tg vs d ev st) =
       PDict [(''summary'',
                 PDict [(''total_tests'', PInt (int (length vs) * 10)),
                        (''vulnerabilities_found'', PInt (int (length vulns))),
                        (''risk_score'',
                           PInt (\<Sum>v\<leftarrow>vulns. spec_severity_weight (severity v)))]),
              (''vulnerabilities'', PList (map vulnerability_dict vulns)),
              (''timestamp'', PStr (start_stamp ev)),
              (''target'', PStr tn)]"
proof (cases "tg ''name''")
  case None
  with assms show ?thesis
    by (simp add: run_mock_test_def finally_reset_simps security_tests_try_no_name)
next
  case (Some tn)
  obtain fin s where loop:
    "mock_loop details_security_tests tg vs (d / 100) (ticks ev) 100 0 (task_start st) = (fin, s)"
    by (cases "mock_loop details_security_tests tg vs (d / 100) (ticks ev) 100 0 (task_start st)")
  from assms security_tests_try_loop(2)[OF Some loop]
  have fin: "fin = Completed \<or> fin = Cancelled"
    by (simp add: run_mock_test_def finally_reset_simps)
  from security_tests_try_loop(4)[OF Some loop fin] loop_from_start_tallies[OF loop] Some
  show ?thesis
    by (intro exI[of _ tn] exI[of _ "results_vulnerabilities s"])
       (simp add: run_mock_test_def finally_reset_simps summary_dict_def)
qed

lemma guared_run_mock_test_returns:
  assumes "outcome (guared_run_mock_test tg vs d ev st) = Completed \<or>
           outcome (guared_run_mock_test tg vs d ev st) = Cancelled"
  shows "\<exists>tn vulns. tg ''name'' = Some tn \<and>
     returned (guared_run_mock_test tg vs d ev st) =
       PDict [(''summary'',
                 PDict [(''total_tests'', PInt (int (length vs) * 10)),
                        (''vulnerabilities_found'', PInt (int (length vulns))),
                        (''risk_score'',
                           PInt (\<Sum>v\<leftarrow>vulns. spec_severity_weight (severity v)))]),
              (''vulnerabilities'', PList (map vulnerability_dict vulns)),
              (''test_details'', PDict []),
              (''timestamp'', PStr (end_stamp ev)),
              (''target'', PStr tn)]"
proof (cases "tg ''name''")
  case None
  with assms show ?thesis
    by (simp add: guared_run_mock_test_def finally_reset_simps guared_try_no_name)
next
  case (Some tn)
  obtain fin s where loop:
    "mock_loop details_guared tg vs (d / 100) (ticks ev) 100 0 (task_start st) = (fin, s)"
    by (cases "mock_loop details_guared tg vs (d / 100) (ticks ev) 100 0 (task_start st)")
  from assms guared_try_loop(2)[OF Some loop]
  have fin: "fin = Completed \<or> fin = Cancelled"
    by (simp add: guared_run_mock_test_def finally_reset_simps)
  from guared_try_loop(4)[OF Some loop fin] loop_from_start_tallies[OF loop] Some
  show ?thesis
    by (intro exI[of _ tn] exI[of _ "results_vulnerabilities s"])
       (simp add: guared_run_mock_test_def finally_reset_simps summary_dict_def)
qed

text \<open>What a run that is ended by an exception returns.\<close>

lemma run_mock_test_fails:
  assumes "outcome (run_mock_test tg vs d ev st) = Failed e"
  shows "returned (run_mock_test tg vs d ev st) =
           PDict [(''error'', PBool True), (''error_message'', PStr (str_exn e))]"
proof (cases "tg ''name''")
  case None
  with assms show ?thesis
    by (simp add: run_mock_test_def finally_reset_simps security_tests_try_no_name)
next
  case (Some tn)
  obtain fin s where loop:
    "mock_loop details_security_tests tg vs (d / 100) (ticks ev) 100 0 (task_start st) = (fin, s)"
    by (cases "mock_loop details_security_tests tg vs (d / 100) (ticks ev) 100 0 (task_start st)")
  from assms security_tests_try_loop(2)[OF Some loop]
  have "fin = Failed e" by (simp add: run_mock_test_def finally_reset_simps)
  from security_tests_try_loop(3)[OF Some loop this] show ?thesis
    by (simp add: run_mock_test_def finally_reset_simps)
qed

lemma guared_run_mock_test_fails:
  assumes "outcome (guared_run_mock_test tg vs d ev st) = Failed e"
  shows "returned (guared_run_mock_test tg vs d ev st) =
           PDict [(''error'', PBool True),
                  (''error_message'', PStr (str_exn e)),
                  (''traceback'', PStr (traceback_text ev)),
                  (''timestamp'', PStr (end_stamp ev))]"
proof (cases "tg ''name''")
  case None
  with assms show ?thesis
    by (simp add: guared_run_mock_test_def finally_reset_simps guared_try_no_name)
next
  case (Some tn)
  obtain fin s where loop:
    "mock_loop details_guared tg vs (d / 100) (ticks ev) 100 0 (task_start st) = (fin, s)"
    by (cases "mock_loop details_guared tg vs (d / 100) (ticks ev) 100 0 (task_start st)")
  from assms guared_try_loop(2)[OF Some loop]
  have "fin = Failed e" by (simp add: guared_run_mock_test_def finally_reset_simps)
  from guared_try_loop(3)[OF Some loop this] show ?thesis
    by (simp add: guared_run_mock_test_def finally_reset_simps)
qed

text \<open>
  Claim C4. With an empty list of test vectors and a vulnerability drawn in iteration 0,
  \<^verbatim>\<open>random.choice\<close> raises inside the loop. The version of security\_tests.py returns
  a dictionary with the keys \<^verbatim>\<open>error\<close> and \<^verbatim>\<open>error_message\<close> only: it has no
  \<^verbatim>\<open>timestamp\<close>. The version of guared.py has one.
\<close>

theorem error_result_without_timestamp:
  "outcome (run_mock_test demo_target [] 30 (demo_env False) Map.empty)
     = Failed (IndexError ''Cannot choose from an empty sequence'') \<and>
   returned (run_mock_test demo_target [] 30 (demo_env False) Map.empty)
     = PDict [(''error'', PBool True),
              (''error_message'', PStr ''Cannot choose from an empty sequence'')] \<and>
   field (returned (run_mock_test demo_target [] 30 (demo_env False) Map.empty)) ''timestamp''
     = None \<and>
   field (returned (guared_run_mock_test demo_target [] 30 (demo_env False) Map.empty))
       ''timestamp''
     = Some (PStr ''2024-01-01T00:00:30'')"
  by code_simp

text \<open>
  Claim C6. When a run returns a summary (it was not ended by an exception), the
  returned \<^verbatim>\<open>risk_score\<close> is the sum, over the returned vulnerabilities, of the weight
  that the specification's table gives to their severity.
\<close>

theorem risk_score_is_sum_of_severity_weights:
  "((\<forall>e. outcome (run_mock_test tg vs d ev st) \<noteq> Failed e) \<longrightarrow>
      (\<exists>vulns.
         field (returned (run_mock_test tg vs d ev st)) ''vulnerabilities''
           = Some (PList (map vulnerability_dict vulns)) \<and>
         field2 (returned (run_mock_test tg vs d ev st)) ''summary'' ''risk_score''
           = Some (PInt (\<Sum>v\<leftarrow>vulns. spec_severity_weight (severity v))))) \<and>
   ((\<forall>e. outcome (guared_run_mock_test tg vs d ev st) \<noteq> Failed e) \<longrightarrow>
      (\<exists>vulns.
         field (returned (guared_run_mock_test tg vs d ev st)) ''vulnerabilities''
           = Some (PList (map vulnerability_dict vulns)) \<and>
         field2 (returned (guared_run_mock_test tg vs d ev st)) ''summary'' ''risk_score''
           = Some (PInt (\<Sum>v\<leftarrow>vulns. spec_severity_weight (severity v)))))"
proof (intro conjI impI)
  assume "\<forall>e. outcome (run_mock_test tg vs d ev st) \<noteq> Failed e"
  then have "outcome (run_mock_test tg vs d ev st) = Completed \<or>
             outcome (run_mock_test tg vs d ev st) = Cancelled"
    by (cases "outcome (run_mock_test tg vs d ev st)") simp_all
  from run_mock_test_returns[OF this] obtain tn vulns where
    "returned (run_mock_test tg vs d ev st) =
       PDict [(''summary'',
                 PDict [(''total_tests'', PInt (int (length vs) * 10)),
                        (''vulnerabilities_found'', PInt (int (length vulns))),
                        (''risk_score'',
                           PInt (\<Sum>v\<leftarrow>vulns. spec_severity_weight (severity v)))]),
              (''vulnerabilities'', PList (map vulnerability_dict vulns)),
              (''timestamp'', PStr (start_stamp ev)),
              (''target'', PStr tn)]" by blast
  then show "\<exists>vulns.
         field (returned (run_mock_test tg vs d ev st)) ''vulnerabilities''
           = Some (PList (map vulnerability_dict vulns)) \<and>
         field2 (returned (run_mock_test tg vs d ev st)) ''summary'' ''risk_score''
           = Some (PInt (\<Sum>v\<leftarrow>vulns. spec_severity_weight (severity v)))"
    by (intro exI[of _ vulns]) (simp add: field_def field2_def)
next
  assume "\<forall>e. outcome (guared_run_mock_test tg vs d ev st) \<noteq> Failed e"
  then have "outcome (guared_run_mock_test tg vs d ev st) = Completed \<or>
             outcome (guared_run_mock_test tg vs d ev st) = Cancelled"
    by (cases "outcome (guared_run_mock_test tg vs d ev st)") simp_all
  from guared_run_mock_test_returns[OF this] obtain tn vulns where
    "returned (guared_run_mock_test tg vs d ev st) =
       PDict [(''summary'',
                 PDict [(''total_tests'', PInt (int (length vs) * 10)),
                        (''vulnerabilities_found'', PInt (int (length vulns))),
                        (''risk_score'',
                           PInt (\<Sum>v\<leftarrow>vulns. spec_severity_weight (severity v)))]),
              (''vulnerabilities'', PList (map vulnerability_dict vulns)),
              (''test_details'', PDict []),
              (''timestamp'', PStr (end_stamp ev)),
              (''target'', PStr tn)]" by blast
  then show "\<exists>vulns.
         field (returned (guared_run_mock_test tg vs d ev st)) ''vulnerabilities''
           = Some (PList (map vulnerability_dict vulns)) \<and>
         field2 (returned (guared_run_mock_test tg vs d ev st)) ''summary'' ''risk_score''
           = Some (PInt (\<Sum>v\<leftarrow>vulns. spec_severity_weight (severity v)))"
    by (intro exI[of _ vulns]) (simp add: field_def field2_def)
qed

text \<open>The cancelled run on the built-in catalogue returns a summary.\<close>

theorem risk_score_is_sum_of_severity_weights_witness:
  "(\<forall>e. outcome (run_mock_test demo_target get_mock_test_vectors 30 (demo_env True) Map.empty)
        \<noteq> Failed e) \<and>
   (\<forall>e. outcome (guared_run_mock_test demo_target get_mock_test_vectors 30 (demo_env True)
        Map.empty) \<noteq> Failed e) \<and>
   (\<exists>vulns.
      field (returned (run_mock_test demo_target get_mock_test_vectors 30 (demo_env True)
        Map.empty)) ''vulnerabilities'' = Some (PList (map vulnerability_dict vulns)) \<and>
      field2 (returned (run_mock_test demo_target get_mock_test_vectors 30 (demo_env True)
        Map.empty)) ''summary'' ''risk_score''
        = Some (PInt (\<Sum>v\<leftarrow>vulns. spec_severity_weight (severity v)))) \<and>
   (\<exists>vulns.
      field (returned (guared_run_mock_test demo_target get_mock_test_vectors 30 (demo_env True)
        Map.empty)) ''vulnerabilities'' = Some (PList (map vulnerability_dict vulns)) \<and>
      field2 (returned (guared_run_mock_test demo_target get_mock_test_vectors 30 (demo_env True)
        Map.empty)) ''summary'' ''risk_score''
        = Some (PInt (\<Sum>v\<leftarrow>vulns. spec_severity_weight (severity v))))"
  using risk_score_is_sum_of_severity_weights
    [of demo_target get_mock_test_vectors 30 "demo_env True" Map.empty]
  by (simp add: demo_cancelled_run guared_demo_cancelled_run)

lemma demo_cancelled_risk_score:
  "field2 (returned (run_mock_test demo_target get_mock_test_vectors 30 (demo_env True)
     Map.empty)) ''summary'' ''risk_score'' = Some (PInt 10)"
  "field2 (returned (run_mock_test demo_target get_mock_test_vectors 30 (demo_env True)
     Map.empty)) ''summary'' ''vulnerabilities_found'' = Some (PInt 3)"
  by code_simp+

text \<open>
  Claim C7. For a non-empty list of test vectors, a run that completes all 100
  iterations returns \<^verbatim>\<open>total_tests = len(test_vectors) * 10\<close>.
\<close>

theorem total_tests_on_normal_completion:
  "vs \<noteq> [] \<Longrightarrow>
   (outcome (run_mock_test tg vs d ev st) = Completed \<longrightarrow>
      field2 (returned (run_mock_test tg vs d ev st)) ''summary'' ''total_tests''
        = Some (PInt (int (length vs) * 10))) \<and>
   (outcome (guared_run_mock_test tg vs d ev st) = Completed \<longrightarrow>
      field2 (returned (guared_run_mock_test tg vs d ev st)) ''summary'' ''total_tests''
        = Some (PInt (int (length vs) * 10)))"
proof (intro conjI impI)
  assume "outcome (run_mock_test tg vs d ev st) = Completed"
  then have "outcome (run_mock_test tg vs d ev st) = Completed \<or>
             outcome (run_mock_test tg vs d ev st) = Cancelled" by simp
  from run_mock_test_returns[OF this]
  show "field2 (returned (run_mock_test tg vs d ev st)) ''summary'' ''total_tests''
          = Some (PInt (int (length vs) * 10))"
    by (auto simp: field_def field2_def)
next
  assume "outcome (guared_run_mock_test tg vs d ev st) = Completed"
  then have "outcome (guared_run_mock_test tg vs d ev st) = Completed \<or>
             outcome (guared_run_mock_test tg vs d ev st) = Cancelled" by simp
  from guared_run_mock_test_returns[OF this]
  show "field2 (returned (guared_run_mock_test tg vs d ev st)) ''summary'' ''total_tests''
          = Some (PInt (int (length vs) * 10))"
    by (auto simp: field_def field2_def)
qed

text \<open>On the three vectors of the built-in catalogue the completed run returns 30.\<close>

theorem total_tests_on_normal_completion_witness:
  "get_mock_test_vectors \<noteq> [] \<and>
   outcome (run_mock_test demo_target get_mock_test_vectors 30 (demo_env False) Map.empty)
     = Completed \<and>
   outcome (guared_run_mock_test demo_target get_mock_test_vectors 30 (demo_env False) Map.empty)
     = Completed \<and>
   field2 (returned (run_mock_test demo_target get_mock_test_vectors 30 (demo_env False)
     Map.empty)) ''summary'' ''total_tests'' = Some (PInt 30) \<and>
   field2 (returned (guared_run_mock_test demo_target get_mock_test_vectors 30 (demo_env False)
     Map.empty)) ''summary'' ''total_tests'' = Some (PInt 30)"
proof -
  have ne: "get_mock_test_vectors \<noteq> []" by (simp add: get_mock_test_vectors_def)
  have len: "length get_mock_test_vectors = 3" by (simp add: get_mock_test_vectors_def)
  from total_tests_on_normal_completion
    [OF ne, of demo_target 30 "demo_env False" Map.empty]
  show ?thesis
    by (simp add: ne len demo_run_completes guared_demo_run_completes)
qed

text \<open>
  Claim C10. A cancelled run returns a result in which \<^verbatim>\<open>total_tests\<close> is
  \<^verbatim>\<open>len(test_vectors) * 10\<close> and \<^verbatim>\<open>timestamp\<close> and \<^verbatim>\<open>target\<close> are present; its keys,
  and the keys of its summary, are those of the result of any completed run.
\<close>

theorem cancelled_run_returns_completed_shape:
  "(outcome (run_mock_test tg vs d ev st) = Cancelled \<longrightarrow>
      field2 (returned (run_mock_test tg vs d ev st)) ''summary'' ''total_tests''
        = Some (PInt (int (length vs) * 10)) \<and>
      field (returned (run_mock_test tg vs d ev st)) ''timestamp''
        = Some (PStr (start_stamp ev)) \<and>
      (\<exists>tn. tg ''name'' = Some tn \<and>
         field (returned (run_mock_test tg vs d ev st)) ''target'' = Some (PStr tn)) \<and>
      (outcome (run_mock_test tg' vs' d' ev' st') = Completed \<longrightarrow>
         keys (returned (run_mock_test tg vs d ev st))
           = keys (returned (run_mock_test tg' vs' d' ev' st')) \<and>
         keys2 (returned (run_mock_test tg vs d ev st)) ''summary''
           = keys2 (returned (run_mock_test tg' vs' d' ev' st')) ''summary'')) \<and>
   (outcome (guared_run_mock_test tg vs d ev st) = Cancelled \<longrightarrow>
      field2 (returned (guared_run_mock_test tg vs d ev st)) ''summary'' ''total_tests''
        = Some (PInt (int (length vs) * 10)) \<and>
      field (returned (guared_run_mock_test tg vs d ev st)) ''timestamp''
        = Some (PStr (end_stamp ev)) \<and>
      (\<exists>tn. tg ''name'' = Some tn \<and>
         field (returned (guared_run_mock_test tg vs d ev st)) ''target'' = Some (PStr tn)) \<and>
      (outcome (guared_run_mock_test tg' vs' d' ev' st') = Completed \<longrightarrow>
         keys (returned (guared_run_mock_test tg vs d ev st))
           = keys (returned (guared_run_mock_test tg' vs' d' ev' st')) \<and>
         keys2 (returned (guared_run_mock_test tg vs d ev st)) ''summary''
           = keys2 (returned (guared_run_mock_test tg' vs' d' ev' st')) ''summary''))"
proof (intro conjI impI)
  assume c: "outcome (run_mock_test tg vs d ev st) = Cancelled"
  then have "outcome (run_mock_test tg vs d ev st) = Completed \<or>
             outcome (run_mock_test tg vs d ev st) = Cancelled" by simp
  note r = run_mock_test_returns[OF this]
  from r show "field2 (returned (run_mock_test tg vs d ev st)) ''summary'' ''total_tests''
          = Some (PInt (int (length vs) * 10))"
    by (auto simp: field_def field2_def)
  from r show "field (returned (run_mock_test tg vs d ev st)) ''timestamp''
          = Some (PStr (start_stamp ev))"
    by (auto simp: field_def)
  from r show "\<exists>tn. tg ''name'' = Some tn \<and>
         field (returned (run_mock_test tg vs d ev st)) ''target'' = Some (PStr tn)"
    by (auto simp: field_def)
  assume "outcome (run_mock_test tg' vs' d' ev' st') = Completed"
  then have "outcome (run_mock_test tg' vs' d' ev' st') = Completed \<or>
             outcome (run_mock_test tg' vs' d' ev' st') = Cancelled" by simp
  note r' = run_mock_test_returns[OF this]
  from r r' show "keys (returned (run_mock_test tg vs d ev st))
           = keys (returned (run_mock_test tg' vs' d' ev' st'))"
    by (auto simp: keys_def)
  from r r' show "keys2 (returned (run_mock_test tg vs d ev st)) ''summary''
           = keys2 (returned (run_mock_test tg' vs' d' ev' st')) ''summary''"
    by (auto simp: keys_def keys2_def field_def)
next
  assume c: "outcome (guared_run_mock_test tg vs d ev st) = Cancelled"
  then have "outcome (guared_run_mock_test tg vs d ev st) = Completed \<or>
             outcome (guared_run_mock_test tg vs d ev st) = Cancelled" by simp
  note r = guared_run_mock_test_returns[OF this]
  from r show "field2 (returned (guared_run_mock_test tg vs d ev st)) ''summary'' ''total_tests''
          = Some (PInt (int (length vs) * 10))"
    by (auto simp: field_def field2_def)
  from r show "field (returned (guared_run_mock_test tg vs d ev st)) ''timestamp''
          = Some (PStr (end_stamp ev))"
    by (auto simp: field_def)
  from r show "\<exists>tn. tg ''name'' = Some tn \<and>
         field (returned (guared_run_mock_test tg vs d ev st)) ''target'' = Some (PStr tn)"
    by (auto simp: field_def)
  assume "outcome (guared_run_mock_test tg' vs' d' ev' st') = Completed"
  then have "outcome (guared_run_mock_test tg' vs' d' ev' st') = Completed \<or>
             outcome (guared_run_mock_test tg' vs' d' ev' st') = Cancelled" by simp
  note r' = guared_run_mock_test_returns[OF this]
  from r r' show "keys (returned (guared_run_mock_test tg vs d ev st))
           = keys (returned (guared_run_mock_test tg' vs' d' ev' st'))"
    by (auto simp: keys_def)
  from r r' show "keys2 (returned (guared_run_mock_test tg vs d ev st)) ''summary''
           = keys2 (returned (guared_run_mock_test tg' vs' d' ev' st')) ''summary''"
    by (auto simp: keys_def keys2_def field_def)
qed

text \<open>A cancelled and a completed run on the built-in catalogue.\<close>

theorem cancelled_run_returns_completed_shape_witness:
  "outcome (run_mock_test demo_target get_mock_test_vectors 30 (demo_env True) Map.empty)
     = Cancelled \<and>
   outcome (run_mock_test demo_target get_mock_test_vectors 30 (demo_env False) Map.empty)
     = Completed \<and>
   outcome (guared_run_mock_test demo_target get_mock_test_vectors 30 (demo_env True) Map.empty)
     = Cancelled \<and>
   outcome (guared_run_mock_test demo_target get_mock_test_vectors 30 (demo_env False) Map.empty)
     = Completed \<and>
   field2 (returned (run_mock_test demo_target get_mock_test_vectors 30 (demo_env True)
     Map.empty)) ''summary'' ''total_tests'' = Some (PInt 30) \<and>
   field (returned (run_mock_test demo_target get_mock_test_vectors 30 (demo_env True)
     Map.empty)) ''target'' = Some (PStr ''demo-model'') \<and>
   keys (returned (run_mock_test demo_target get_mock_test_vectors 30 (demo_env True) Map.empty))
     = keys (returned (run_mock_test demo_target get_mock_test_vectors 30 (demo_env False)
         Map.empty)) \<and>
   keys (returned (guared_run_mock_test demo_target get_mock_test_vectors 30 (demo_env True)
       Map.empty))
     = keys (returned (guared_run_mock_test demo_target get_mock_test_vectors 30 (demo_env False)
         Map.empty))"
proof -
  have len: "length get_mock_test_vectors = 3" by (simp add: get_mock_test_vectors_def)
  have nm: "demo_target ''name'' = Some ''demo-model''" by (simp add: demo_target_def)
  from cancelled_run_returns_completed_shape
    [of demo_target get_mock_test_vectors 30 "demo_env True" Map.empty
        demo_target get_mock_test_vectors 30 "demo_env False" Map.empty]
  show ?thesis
    by (simp add: len nm demo_cancelled_run guared_demo_cancelled_run demo_run_completes
        guared_demo_run_completes)
qed

section \<open>Properties of the DOI format check\<close>












text \<open>A well-formed DOI is resolved with one \<^verbatim>\<open>HEAD\<close> request when the first answer is 200.\<close>

lemma validate_doi_well_formed:
  "validate_doi always_ok (PStr ''10.1234/test'')
     = (True, [(''head'', ''https://doi.org/10.1234/test'')])"
  by code_simp



lemma well_formed_doi_format: "is_valid_doi_format (PStr ''10.1234/test'')"
  by code_simp


end
